theory Spec2Isabelle
  imports Main
begin

section \<open>Python values and errors\<close>

text \<open>
  The configuration document is a nested mapping of JSON-like values. A float is carried
  as a pair \<open>(m, e)\<close> standing for \<open>m * 2^e\<close>; the code under study only moves floats
  around and never computes with them.
\<close>

datatype pyval =
    PNone
  | PBool bool
  | PInt int
  | PFloat int int
  | PStr string
  | PList "pyval list"

text \<open>
  \<open>IndexError\<close> is what \<^verbatim>\<open>obj.primitives[0]\<close> raises on an empty list;
  \<open>EngineError\<close> stands for any failure of the external layout engine, which
  propagates to the caller unmodified.
\<close>

datatype error = IndexError | EngineError string

type_synonym kwargs = "string \<rightharpoonup> pyval"

type_synonym pydict = "(string \<times> pyval) list"

definition kwargs_get :: "kwargs \<Rightarrow> string \<Rightarrow> pyval" where
  "kwargs_get kw k = (case kw k of None \<Rightarrow> PNone | Some v \<Rightarrow> v)"

definition kwargs_get_default :: "kwargs \<Rightarrow> string \<Rightarrow> pyval \<Rightarrow> pyval" where
  "kwargs_get_default kw k d = (case kw k of None \<Rightarrow> d | Some v \<Rightarrow> v)"

section \<open>The layout database, as far as \<^verbatim>\<open>cfg_operations.py\<close> reads and writes it\<close>

text \<open>
  Modelled from the spec: the layout database (\<^verbatim>\<open>pedb\<close>) is an external
  collaborator whose code is missing from the sources; the spec lists what the handlers
  consume of it: \<^verbatim>\<open>stackup\<close>, \<^verbatim>\<open>nets\<close>, \<^verbatim>\<open>modeler\<close>,
  \<^verbatim>\<open>layout.find_primitive\<close> and a \<^verbatim>\<open>cutout(**kwargs)\<close> operation returning
  boundary geometry. A primitive lives on one layer, belongs to one net and carries its
  outline (\<^verbatim>\<open>polygon_data.points\<close>). The database holds the stackup's layer names
  (\<^verbatim>\<open>stackup.all_layers\<close>), the layout's primitives in creation order and the net
  names in dictionary order (\<^verbatim>\<open>nets.nets\<close>). The primitives of a net are the
  layout's primitives carrying its name, so a net may have none (a net of pins only).
\<close>

record primitive =
  layer_name :: string
  net_name :: string
  points :: pyval

record edb =
  all_layers :: "string list"
  primitives :: "primitive list"
  nets :: "string list"

definition sentinel :: string where
  "sentinel = ''pyedb_cutout''"

definition net_primitives :: "edb \<Rightarrow> string \<Rightarrow> primitive list" where
  "net_primitives db n = filter (\<lambda>p. net_name p = n) (primitives db)"

definition find_primitive :: "edb \<Rightarrow> string \<Rightarrow> primitive list" where
  "find_primitive db l = filter (\<lambda>p. layer_name p = l) (primitives db)"

definition add_document_layer :: "string \<Rightarrow> edb \<Rightarrow> edb" where
  "add_document_layer name db = db\<lparr>all_layers := all_layers db @ [name]\<rparr>"

definition create_polygon :: "pyval \<Rightarrow> string \<Rightarrow> string \<Rightarrow> edb \<Rightarrow> edb" where
  "create_polygon pts layer net db =
     db\<lparr>primitives := primitives db @ [\<lparr>layer_name = layer, net_name = net, points = pts\<rparr>],
        nets := (if net \<in> set (nets db) then nets db else nets db @ [net])\<rparr>"

text \<open>
  The cutout computation itself belongs to the external engine. It is a parameter of the
  model: given the keyword arguments and the database it either fails or returns the
  boundary polygon together with the database it leaves behind.
\<close>

type_synonym cutout_engine = "pydict \<Rightarrow> edb \<Rightarrow> error + (pyval \<times> edb)"

section \<open>CfgCutout\<close>

record cfg_cutout =
  signal_list :: pyval
  reference_list :: pyval
  extent_type :: pyval
  expansion_size :: pyval
  use_round_corner :: pyval
  output_aedb_path :: pyval
  open_cutout_at_end :: pyval
  use_pyaedt_cutout :: pyval
  number_of_threads :: pyval
  use_pyaedt_extent_computing :: pyval
  extent_defeature :: pyval
  remove_single_pin_components :: pyval
  custom_extent :: pyval
  custom_extent_units :: pyval
  include_partial_instances :: pyval
  keep_voids :: pyval
  check_terminals :: pyval
  include_pingroups :: pyval
  expansion_factor :: pyval
  maximum_iterations :: pyval
  preserve_components_with_model :: pyval
  simple_pad_check :: pyval
  keep_lines_as_path :: pyval

definition CfgCutout_init :: "kwargs \<Rightarrow> cfg_cutout" where
  "CfgCutout_init kw =
     \<lparr>signal_list = kwargs_get kw ''signal_list'',
      reference_list = kwargs_get kw ''reference_list'',
      extent_type = kwargs_get kw ''extent_type'',
      expansion_size = kwargs_get kw ''expansion_size'',
      use_round_corner = kwargs_get kw ''use_round_corner'',
      output_aedb_path = kwargs_get kw ''output_aedb_path'',
      open_cutout_at_end = kwargs_get kw ''open_cutout_at_end'',
      use_pyaedt_cutout = kwargs_get kw ''use_pyaedt_cutout'',
      number_of_threads = kwargs_get kw ''number_of_threads'',
      use_pyaedt_extent_computing = kwargs_get kw ''use_pyaedt_extent_computing'',
      extent_defeature = kwargs_get kw ''extent_defeature'',
      remove_single_pin_components = kwargs_get kw ''remove_single_pin_components'',
      custom_extent = kwargs_get kw ''custom_extent'',
      custom_extent_units = kwargs_get_default kw ''custom_extent_units'' (PStr ''meter''),
      include_partial_instances = kwargs_get kw ''include_partial_instances'',
      keep_voids = kwargs_get kw ''keep_voids'',
      check_terminals = kwargs_get kw ''check_terminals'',
      include_pingroups = kwargs_get kw ''include_pingroups'',
      expansion_factor = kwargs_get kw ''expansion_factor'',
      maximum_iterations = kwargs_get kw ''maximum_iterations'',
      preserve_components_with_model = kwargs_get kw ''preserve_components_with_model'',
      simple_pad_check = kwargs_get kw ''simple_pad_check'',
      keep_lines_as_path = kwargs_get kw ''keep_lines_as_path''\<rparr>"

text \<open>
  Modelled from the spec: \<^verbatim>\<open>CfgBase.get_attributes\<close> (module
  \<^verbatim>\<open>cfg_common\<close>) is missing from the sources. The spec says that the external
  cutout computation is invoked "with all stored parameters", so the keyword arguments
  are every stored attribute of the handler under its own name.
\<close>

definition get_attributes :: "cfg_cutout \<Rightarrow> pydict" where
  "get_attributes c =
     [(''signal_list'', signal_list c),
      (''reference_list'', reference_list c),
      (''extent_type'', extent_type c),
      (''expansion_size'', expansion_size c),
      (''use_round_corner'', use_round_corner c),
      (''output_aedb_path'', output_aedb_path c),
      (''open_cutout_at_end'', open_cutout_at_end c),
      (''use_pyaedt_cutout'', use_pyaedt_cutout c),
      (''number_of_threads'', number_of_threads c),
      (''use_pyaedt_extent_computing'', use_pyaedt_extent_computing c),
      (''extent_defeature'', extent_defeature c),
      (''remove_single_pin_components'', remove_single_pin_components c),
      (''custom_extent'', custom_extent c),
      (''custom_extent_units'', custom_extent_units c),
      (''include_partial_instances'', include_partial_instances c),
      (''keep_voids'', keep_voids c),
      (''check_terminals'', check_terminals c),
      (''include_pingroups'', include_pingroups c),
      (''expansion_factor'', expansion_factor c),
      (''maximum_iterations'', maximum_iterations c),
      (''preserve_components_with_model'', preserve_components_with_model c),
      (''simple_pad_check'', simple_pad_check c),
      (''keep_lines_as_path'', keep_lines_as_path c)]"

definition export_properties :: "cfg_cutout \<Rightarrow> pydict" where
  "export_properties c =
     [(''signal_list'', signal_list c),
      (''reference_list'', reference_list c),
      (''custom_extent'', custom_extent c)]"

text \<open>
  The loop over \<^verbatim>\<open>nets.nets.items()\<close>. The first primitive of each net is read
  before the length of the list is looked at, so a net without primitives raises
  \<open>IndexError\<close>; the later length test then always succeeds.
\<close>

fun collect_net_names :: "edb \<Rightarrow> string list \<Rightarrow> string list \<Rightarrow> error + string list" where
  "collect_net_names db [] net_names = Inr net_names"
| "collect_net_names db (name # rest) net_names =
     (case net_primitives db name of
        [] \<Rightarrow> Inl IndexError
      | p # _ \<Rightarrow>
          if layer_name p = sentinel then collect_net_names db rest net_names
          else if length (net_primitives db name) > 0
            then collect_net_names db rest (net_names @ [name])
            else collect_net_names db rest net_names)"

text \<open>
  \<^verbatim>\<open>CfgCutout.get_data_from_db\<close> returns the exported dictionary, or nothing
  (\<open>None\<close>) when it falls off its end, together with the handler as the call leaves it.
\<close>

definition CfgCutout_get_data_from_db ::
    "cfg_cutout \<Rightarrow> edb \<Rightarrow> error + (pydict option \<times> cfg_cutout)" where
  "CfgCutout_get_data_from_db c db =
     (if sentinel \<in> set (all_layers db) then
        (case find_primitive db sentinel of
           [] \<Rightarrow> Inr (Some (export_properties c), c)
         | poly # _ \<Rightarrow>
             (case collect_net_names db (nets db) [] of
                Inl e \<Rightarrow> Inl e
              | Inr net_names \<Rightarrow>
                  (let c' = c\<lparr>custom_extent := points poly,
                               reference_list := PList [],
                               signal_list := PList (map PStr net_names)\<rparr>
                   in Inr (Some (export_properties c'), c'))))
      else Inr (None, c))"

section \<open>CfgOperations\<close>

record cfg_operations =
  op_cutout :: "cfg_cutout option"

definition CfgOperations_init :: "(string \<rightharpoonup> kwargs) \<Rightarrow> cfg_operations" where
  "CfgOperations_init data =
     \<lparr>op_cutout = (case data ''cutout'' of
                      Some kw \<Rightarrow> Some (CfgCutout_init kw)
                    | None \<Rightarrow> None)\<rparr>"

definition CfgOperations_apply ::
    "cutout_engine \<Rightarrow> cfg_operations \<Rightarrow> edb \<Rightarrow> error + edb" where
  "CfgOperations_apply cutout ops db =
     (case op_cutout ops of
        None \<Rightarrow> Inr db
      | Some c \<Rightarrow>
          (case cutout (get_attributes c) db of
             Inl e \<Rightarrow> Inl e
           | Inr (polygon_points, db') \<Rightarrow>
               if sentinel \<notin> set (all_layers db')
               then Inr (create_polygon polygon_points sentinel sentinel
                          (add_document_layer sentinel db'))
               else Inr db'))"

text \<open>
  \<^verbatim>\<open>CfgOperations.get_data_from_db\<close> replaces the handler by a fresh one built
  without keyword arguments, and wraps what that handler exports when it is a non-empty
  dictionary.
\<close>

definition CfgOperations_get_data_from_db ::
    "cfg_operations \<Rightarrow> edb \<Rightarrow> error + ((string \<times> pydict) list \<times> cfg_operations)" where
  "CfgOperations_get_data_from_db ops db =
     (case CfgCutout_get_data_from_db (CfgCutout_init Map.empty) db of
        Inl e \<Rightarrow> Inl e
      | Inr (data_from_db, c') \<Rightarrow>
          (case data_from_db of
             None \<Rightarrow> Inr ([], ops\<lparr>op_cutout := Some c'\<rparr>)
           | Some d \<Rightarrow>
               if d \<noteq> [] then Inr ([(''cutout'', d)], ops\<lparr>op_cutout := Some c'\<rparr>)
               else Inr ([], ops\<lparr>op_cutout := Some c'\<rparr>)))"

section \<open>The cutout engine described by the spec\<close>

fun names_of :: "pyval \<Rightarrow> string list" where
  "names_of (PList vs) = concat (map (\<lambda>v. case v of PStr s \<Rightarrow> [s] | _ \<Rightarrow> []) vs)"
| "names_of _ = []"

definition pydict_get :: "pydict \<Rightarrow> string \<Rightarrow> pyval" where
  "pydict_get d k = (case map_of d k of None \<Rightarrow> PNone | Some v \<Rightarrow> v)"

text \<open>
  Modelled from the spec: the cutout operation of the layout database
  (\<^verbatim>\<open>Edb.cutout\<close>) is missing from the sources. The spec says that "applying a
  cutout with signal nets {A,B} and reference {G} must result in the net set becoming
  exactly {A,B,G,<sentinel>} when starting from a superset": the engine keeps the nets
  named in \<^verbatim>\<open>signal_list\<close> and \<^verbatim>\<open>reference_list\<close> and the sentinel net
  \<^verbatim>\<open>pyedb_cutout\<close>, discards every other net together with its primitives, leaves
  the stackup alone and returns the boundary it cut along. The sentinel net itself is
  first written by \<^verbatim>\<open>CfgOperations.apply\<close>. The geometry is out of scope, so the
  boundary is given.
\<close>

definition listed_nets :: "pydict \<Rightarrow> string list" where
  "listed_nets kw =
     names_of (pydict_get kw ''signal_list'')
     @ names_of (pydict_get kw ''reference_list'')
     @ [sentinel]"

definition discard_unlisted :: "string list \<Rightarrow> edb \<Rightarrow> edb" where
  "discard_unlisted keep db =
     db\<lparr>primitives := filter (\<lambda>p. net_name p \<in> set keep) (primitives db),
        nets := filter (\<lambda>n. n \<in> set keep) (nets db)\<rparr>"

definition keep_listed_nets :: "pyval \<Rightarrow> cutout_engine" where
  "keep_listed_nets boundary kw db = Inr (boundary, discard_unlisted (listed_nets kw) db)"

text \<open>An engine that always fails.\<close>

definition failing_engine :: cutout_engine where
  "failing_engine kw db = Inl (EngineError ''cutout failed'')"

section \<open>What the spec says the export contains\<close>

text \<open>
  The spec's reading of the export: a net is "not confined to the sentinel layer" when it
  has a primitive on some other layer, and the exported \<^verbatim>\<open>signal_list\<close> holds exactly
  those nets, with an empty \<^verbatim>\<open>reference_list\<close>.
\<close>

definition not_confined :: "edb \<Rightarrow> string \<Rightarrow> bool" where
  "not_confined db n = list_ex (\<lambda>p. layer_name p \<noteq> sentinel) (net_primitives db n)"

definition exports_not_confined_nets :: "edb \<Rightarrow> bool" where
  "exports_not_confined_nets db =
     (case CfgCutout_get_data_from_db (CfgCutout_init Map.empty) db of
        Inr (Some d, _) \<Rightarrow>
          pydict_get d ''signal_list'' = PList (map PStr (filter (not_confined db) (nets db)))
          \<and> pydict_get d ''reference_list'' = PList []
      | _ \<Rightarrow> False)"

text \<open>What the code tests instead: the layer of the first primitive of the net.\<close>

definition first_primitive_off_sentinel :: "edb \<Rightarrow> string \<Rightarrow> bool" where
  "first_primitive_off_sentinel db n =
     (case net_primitives db n of [] \<Rightarrow> False | p # _ \<Rightarrow> layer_name p \<noteq> sentinel)"


section \<open>Example databases and documents\<close>

definition square :: pyval where
  "square = PList [PList [PInt 0, PInt 0], PList [PInt 1, PInt 0],
                   PList [PInt 1, PInt 1], PList [PInt 0, PInt 1]]"

definition db_plain :: edb where
  "db_plain =
     \<lparr>all_layers = [''1_Top'', ''16_Bottom''],
      primitives = [\<lparr>layer_name = ''1_Top'', net_name = ''GND'', points = square\<rparr>],
      nets = [''GND'']\<rparr>"

definition db_empty_sentinel :: edb where
  "db_empty_sentinel =
     \<lparr>all_layers = [''1_Top'', ''pyedb_cutout''],
      primitives = [\<lparr>layer_name = ''1_Top'', net_name = ''GND'', points = square\<rparr>],
      nets = [''GND'']\<rparr>"

text \<open>A database after a cutout: two nets on the board and the sentinel polygon.\<close>

definition db_after_cutout :: edb where
  "db_after_cutout =
     \<lparr>all_layers = [''1_Top'', ''pyedb_cutout''],
      primitives = [\<lparr>layer_name = ''1_Top'', net_name = ''SIG'', points = square\<rparr>,
                    \<lparr>layer_name = ''1_Top'', net_name = ''GND'', points = square\<rparr>,
                    \<lparr>layer_name = ''pyedb_cutout'', net_name = ''pyedb_cutout'', points = square\<rparr>],
      nets = [''SIG'', ''GND'', ''pyedb_cutout'']\<rparr>"

text \<open>
  The net \<open>SIG\<close> has its first primitive on the sentinel layer and a second one on
  \<open>1_Top\<close>.
\<close>

definition db_first_on_sentinel :: edb where
  "db_first_on_sentinel =
     \<lparr>all_layers = [''1_Top'', ''pyedb_cutout''],
      primitives = [\<lparr>layer_name = ''pyedb_cutout'', net_name = ''pyedb_cutout'', points = square\<rparr>,
                    \<lparr>layer_name = ''pyedb_cutout'', net_name = ''SIG'', points = square\<rparr>,
                    \<lparr>layer_name = ''1_Top'', net_name = ''SIG'', points = square\<rparr>,
                    \<lparr>layer_name = ''1_Top'', net_name = ''GND'', points = square\<rparr>],
      nets = [''SIG'', ''GND'', ''pyedb_cutout'']\<rparr>"

text \<open>The net \<open>NC\<close> has pins only, no primitive.\<close>

definition db_net_without_primitives :: edb where
  "db_net_without_primitives =
     \<lparr>all_layers = [''1_Top'', ''pyedb_cutout''],
      primitives = [\<lparr>layer_name = ''1_Top'', net_name = ''GND'', points = square\<rparr>,
                    \<lparr>layer_name = ''pyedb_cutout'', net_name = ''pyedb_cutout'', points = square\<rparr>],
      nets = [''GND'', ''NC'', ''pyedb_cutout'']\<rparr>"


definition cutout_kwargs :: kwargs where
  "cutout_kwargs = [''signal_list'' \<mapsto> PList [PStr ''A''],
                    ''reference_list'' \<mapsto> PList [PStr ''G'']]"




definition every_net_has_primitive :: "edb \<Rightarrow> bool" where
  "every_net_has_primitive db = list_all (\<lambda>n. net_primitives db n \<noteq> []) (nets db)"

section \<open>Renaming a stackup layer\<close>

text \<open>
  Modelled from the spec: the stackup handler (\<^verbatim>\<open>cfg_stackup\<close>) and the padstack
  instances of the database are missing from the sources. The spec says that the handler
  supports "rename (matched by position when \<^verbatim>\<open>name\<close> changes)" and that "renaming a
  layer must cascade to every padstack instance whose start/stop layer references the old
  name -- this must happen atomically with the rename". A rename is therefore one step
  on the stackup and the instances together: the layer at the given position takes the
  new name, and every start or stop layer that carried the old name takes it too. A
  position outside the stackup matches no layer.
\<close>

record padstack_instance =
  start_layer :: string
  stop_layer :: string

record stackup_db =
  layers :: "string list"
  instances :: "padstack_instance list"

definition cascade :: "string \<Rightarrow> string \<Rightarrow> padstack_instance \<Rightarrow> padstack_instance" where
  "cascade old new i =
     i\<lparr>start_layer := (if start_layer i = old then new else start_layer i),
       stop_layer := (if stop_layer i = old then new else stop_layer i)\<rparr>"

definition rename_layer :: "nat \<Rightarrow> string \<Rightarrow> stackup_db \<Rightarrow> stackup_db option" where
  "rename_layer k new s =
     (if k < length (layers s)
      then Some (s\<lparr>layers := (layers s)[k := new],
                   instances := map (cascade (layers s ! k) new) (instances s)\<rparr>)
      else None)"

definition references_known_layers :: "stackup_db \<Rightarrow> bool" where
  "references_known_layers s =
     list_all (\<lambda>i. start_layer i \<in> set (layers s) \<and> stop_layer i \<in> set (layers s))
       (instances s)"

text \<open>
  Instance by instance: whoever started or stopped on the old name now does so on the
  new one.
\<close>

definition follows_rename :: "string \<Rightarrow> string \<Rightarrow> padstack_instance list \<Rightarrow> padstack_instance list \<Rightarrow> bool" where
  "follows_rename old new before after =
     (length after = length before
      \<and> list_all2 (\<lambda>b a. (start_layer b = old \<longrightarrow> start_layer a = new)
                       \<and> (stop_layer b = old \<longrightarrow> stop_layer a = new)) before after)"

definition stackup_example :: stackup_db where
  "stackup_example =
     \<lparr>layers = [''1_Top'', ''Inner1(GND1)'', ''16_Bottom''],
      instances = [\<lparr>start_layer = ''1_Top'', stop_layer = ''Inner1(GND1)''\<rparr>,
                   \<lparr>start_layer = ''Inner1(GND1)'', stop_layer = ''16_Bottom''\<rparr>,
                   \<lparr>start_layer = ''1_Top'', stop_layer = ''16_Bottom''\<rparr>]\<rparr>"

section \<open>Sources on a pair of nets\<close>

text \<open>
  Modelled from the spec: the ports and sources handler (\<^verbatim>\<open>cfg_ports_sources\<close>) and
  the components, pin groups and sources of the database are missing from the sources.
  The spec says:
  \<^item> a terminal is resolved "through one of five addressing modes -- explicit pin, net
    (possibly expanded into a pin group when a whole net is used as one terminal),
    explicit pin group, nearest-pin-to-radius search against a reference net, or explicit
    layer/point coordinate";
  \<^item> "creating a net-based terminal implicitly creates a backing pin group if one does
    not already exist, named deterministically from the entry name and reference
    designator (\<^verbatim>\<open>pg_<name>_<designator>\<close> / \<^verbatim>\<open>..._ref\<close> for the negative side)";
  \<^item> "ambiguous terminal resolution (e.g., named pin not found on the given reference
    designator) must fail with a clear lookup error rather than silently defaulting";
  \<^item> "applying configuration with a duplicate name overwrites/merges rather than
    duplicating";
  \<^item> re-exporting "must reproduce the same electrical magnitude/type even though the
    on-database representation is now a pin-group port".

  The database knows, for every component, its pins and the net of each. A net without a
  pin on the component, a pin the component does not have and a pin group the database
  does not have are lookup errors. The nearest-pin search is geometry of the external
  engine and the expansion of a distributed entry is not described far enough to be
  written down; both are parameters of the model.
\<close>

datatype terminal =
    Pin string
  | Net string
  | Pin_Group string
  | Nearest_Pin string pyval
  | Coordinate string pyval

record source_entry =
  entry_name :: string
  reference_designator :: string
  entry_type :: string
  magnitude :: pyval
  distributed :: bool
  positive_terminal :: terminal
  negative_terminal :: terminal

datatype lookup_error =
    Pin_Not_Found string string
  | Net_Not_Found string string
  | Pin_Group_Not_Found string
  | Search_Failed string

datatype db_terminal =
    Pin_Terminal string string
  | Pin_Group_Terminal string
  | Point_Terminal string pyval

record db_source =
  source_name :: string
  source_component :: string
  source_type :: string
  source_magnitude :: pyval
  source_positive :: db_terminal
  source_negative :: db_terminal

record terminals_db =
  component_pins :: "(string \<times> string \<times> string) list"
  pin_groups :: "(string \<times> string list) list"
  sources :: "db_source list"

type_synonym pin_search =
  "terminals_db \<Rightarrow> source_entry \<Rightarrow> string \<Rightarrow> pyval \<Rightarrow> lookup_error + string"

type_synonym distributed_expansion =
  "source_entry \<Rightarrow> terminals_db \<Rightarrow> lookup_error + terminals_db"

definition pins_on_net :: "terminals_db \<Rightarrow> string \<Rightarrow> string \<Rightarrow> string list" where
  "pins_on_net db rd net =
     map (\<lambda>(r, pin, n). pin) (filter (\<lambda>(r, pin, n). r = rd \<and> n = net) (component_pins db))"

definition has_pin :: "terminals_db \<Rightarrow> string \<Rightarrow> string \<Rightarrow> bool" where
  "has_pin db rd pin = list_ex (\<lambda>(r, p, n). r = rd \<and> p = pin) (component_pins db)"

definition pin_group_names :: "terminals_db \<Rightarrow> string list" where
  "pin_group_names db = map fst (pin_groups db)"

definition pg_name :: "source_entry \<Rightarrow> string" where
  "pg_name e = ''pg_'' @ entry_name e @ ''_'' @ reference_designator e"

definition pg_ref_name :: "source_entry \<Rightarrow> string" where
  "pg_ref_name e = pg_name e @ ''_ref''"

definition create_pin_group :: "string \<Rightarrow> string list \<Rightarrow> terminals_db \<Rightarrow> terminals_db" where
  "create_pin_group pg pins db =
     (if pg \<in> set (pin_group_names db) then db
      else db\<lparr>pin_groups := pin_groups db @ [(pg, pins)]\<rparr>)"

fun resolve_terminal ::
    "pin_search \<Rightarrow> source_entry \<Rightarrow> string \<Rightarrow> terminal \<Rightarrow> terminals_db
      \<Rightarrow> lookup_error + (db_terminal \<times> terminals_db)" where
  "resolve_terminal search e pg (Pin p) db =
     (if has_pin db (reference_designator e) p
      then Inr (Pin_Terminal (reference_designator e) p, db)
      else Inl (Pin_Not_Found (reference_designator e) p))"
| "resolve_terminal search e pg (Net n) db =
     (case pins_on_net db (reference_designator e) n of
        [] \<Rightarrow> Inl (Net_Not_Found (reference_designator e) n)
      | pin # pins \<Rightarrow> Inr (Pin_Group_Terminal pg, create_pin_group pg (pin # pins) db))"
| "resolve_terminal search e pg (Pin_Group g) db =
     (if g \<in> set (pin_group_names db) then Inr (Pin_Group_Terminal g, db)
      else Inl (Pin_Group_Not_Found g))"
| "resolve_terminal search e pg (Nearest_Pin reference_net radius) db =
     (case search db e reference_net radius of
        Inl err \<Rightarrow> Inl err
      | Inr p \<Rightarrow> Inr (Pin_Terminal (reference_designator e) p, db))"
| "resolve_terminal search e pg (Coordinate layer point) db = Inr (Point_Terminal layer point, db)"

definition store_source ::
    "source_entry \<Rightarrow> db_terminal \<Rightarrow> db_terminal \<Rightarrow> terminals_db \<Rightarrow> terminals_db" where
  "store_source e pos neg db =
     db\<lparr>sources := filter (\<lambda>s. source_name s \<noteq> entry_name e) (sources db)
                     @ [\<lparr>source_name = entry_name e,
                         source_component = reference_designator e,
                         source_type = entry_type e,
                         source_magnitude = magnitude e,
                         source_positive = pos,
                         source_negative = neg\<rparr>]\<rparr>"

definition apply_source ::
    "pin_search \<Rightarrow> distributed_expansion \<Rightarrow> source_entry \<Rightarrow> terminals_db
      \<Rightarrow> lookup_error + terminals_db" where
  "apply_source search expand e db =
     (if distributed e then expand e db
      else
        (case resolve_terminal search e (pg_name e) (positive_terminal e) db of
           Inl err \<Rightarrow> Inl err
         | Inr (pos, db1) \<Rightarrow>
             (case resolve_terminal search e (pg_ref_name e) (negative_terminal e) db1 of
                Inl err \<Rightarrow> Inl err
              | Inr (neg, db2) \<Rightarrow> Inr (store_source e pos neg db2))))"

fun export_terminal :: "db_terminal \<Rightarrow> terminal" where
  "export_terminal (Pin_Terminal rd p) = Pin p"
| "export_terminal (Pin_Group_Terminal g) = Pin_Group g"
| "export_terminal (Point_Terminal layer point) = Coordinate layer point"

text \<open>Every source of the database is exported as one entry of its own.\<close>

definition export_source :: "db_source \<Rightarrow> source_entry" where
  "export_source s =
     \<lparr>entry_name = source_name s,
      reference_designator = source_component s,
      entry_type = source_type s,
      magnitude = source_magnitude s,
      distributed = False,
      positive_terminal = export_terminal (source_positive s),
      negative_terminal = export_terminal (source_negative s)\<rparr>"

definition export_sources :: "terminals_db \<Rightarrow> source_entry list" where
  "export_sources db = map export_source (sources db)"

text \<open>
  What applying a net/net entry leaves in the database: nothing about the components
  changes, both pin groups exist, they are the two new ones (with the pins of the nets on
  the component) when neither name was taken, the source is stored once under its name,
  and the export holds exactly one entry of that name: the applied entry with its
  terminals replaced by the pin groups.
\<close>

definition net_net_source_applied ::
    "source_entry \<Rightarrow> string \<Rightarrow> string \<Rightarrow> terminals_db \<Rightarrow> terminals_db \<Rightarrow> bool" where
  "net_net_source_applied e p n db db' =
     (component_pins db' = component_pins db
      \<and> pg_name e \<in> set (pin_group_names db')
      \<and> pg_ref_name e \<in> set (pin_group_names db')
      \<and> (pg_name e \<notin> set (pin_group_names db) \<and> pg_ref_name e \<notin> set (pin_group_names db)
           \<longrightarrow> pin_groups db' =
                 pin_groups db @ [(pg_name e, pins_on_net db (reference_designator e) p),
                                  (pg_ref_name e, pins_on_net db (reference_designator e) n)])
      \<and> (pg_name e \<in> set (pin_group_names db) \<and> pg_ref_name e \<in> set (pin_group_names db)
           \<longrightarrow> pin_groups db' = pin_groups db)
      \<and> sources db' =
          filter (\<lambda>s. source_name s \<noteq> entry_name e) (sources db)
          @ [\<lparr>source_name = entry_name e,
              source_component = reference_designator e,
              source_type = entry_type e,
              source_magnitude = magnitude e,
              source_positive = Pin_Group_Terminal (pg_name e),
              source_negative = Pin_Group_Terminal (pg_ref_name e)\<rparr>]
      \<and> filter (\<lambda>x. entry_name x = entry_name e) (export_sources db') =
          [e\<lparr>positive_terminal := Pin_Group (pg_name e),
             negative_terminal := Pin_Group (pg_ref_name e)\<rparr>])"

definition no_search :: pin_search where
  "no_search db e reference_net radius = Inl (Search_Failed reference_net)"

definition no_expansion :: distributed_expansion where
  "no_expansion e db = Inl (Search_Failed (entry_name e))"

definition vsource :: source_entry where
  "vsource =
     \<lparr>entry_name = ''VSOURCE_U2_1V0_GND'',
      reference_designator = ''U2'',
      entry_type = ''voltage'',
      magnitude = PInt 1,
      distributed = False,
      positive_terminal = Net ''1V0'',
      negative_terminal = Net ''GND''\<rparr>"

text \<open>A board with a pin group and a source that the entry does not touch.\<close>

definition board_pins :: terminals_db where
  "board_pins =
     \<lparr>component_pins = [(''U2'', ''A1'', ''1V0''), (''U2'', ''A2'', ''GND''),
                         (''U2'', ''B1'', ''1V0''), (''U1'', ''1'', ''GND'')],
      pin_groups = [(''U1_GND'', [''1''])],
      sources = [\<lparr>source_name = ''ISOURCE'',
                   source_component = ''U1'',
                   source_type = ''current'',
                   source_magnitude = PInt 2,
                   source_positive = Pin_Terminal ''U1'' ''1'',
                   source_negative = Pin_Group_Terminal ''U1_GND''\<rparr>]\<rparr>"

definition board_pins_applied :: terminals_db where
  "board_pins_applied =
     \<lparr>component_pins = [(''U2'', ''A1'', ''1V0''), (''U2'', ''A2'', ''GND''),
                         (''U2'', ''B1'', ''1V0''), (''U1'', ''1'', ''GND'')],
      pin_groups = [(''U1_GND'', [''1'']),
                    (''pg_VSOURCE_U2_1V0_GND_U2'', [''A1'', ''B1'']),
                    (''pg_VSOURCE_U2_1V0_GND_U2_ref'', [''A2''])],
      sources = [\<lparr>source_name = ''ISOURCE'',
                   source_component = ''U1'',
                   source_type = ''current'',
                   source_magnitude = PInt 2,
                   source_positive = Pin_Terminal ''U1'' ''1'',
                   source_negative = Pin_Group_Terminal ''U1_GND''\<rparr>,
                 \<lparr>source_name = ''VSOURCE_U2_1V0_GND'',
                   source_component = ''U2'',
                   source_type = ''voltage'',
                   source_magnitude = PInt 1,
                   source_positive = Pin_Group_Terminal ''pg_VSOURCE_U2_1V0_GND_U2'',
                   source_negative = Pin_Group_Terminal ''pg_VSOURCE_U2_1V0_GND_U2_ref''\<rparr>]\<rparr>"

section \<open>Properties\<close>

subsection \<open>Helper facts\<close>

lemma cfg_operations_update: "(ops::cfg_operations)\<lparr>op_cutout := x\<rparr> = \<lparr>op_cutout = x\<rparr>"
  by (cases ops) simp

lemma CfgCutout_init_empty:
  "export_properties (CfgCutout_init Map.empty) =
     [(''signal_list'', PNone), (''reference_list'', PNone), (''custom_extent'', PNone)]"
  by (simp add: export_properties_def CfgCutout_init_def kwargs_get_def)

lemma collect_net_names_ok:
  "list_all (\<lambda>n. net_primitives db n \<noteq> []) ns \<Longrightarrow>
     collect_net_names db ns acc = Inr (acc @ filter (first_primitive_off_sentinel db) ns)"
  by (induction ns arbitrary: acc)
     (auto simp: first_primitive_off_sentinel_def split: list.splits)

lemma collect_net_names_IndexError:
  "list_ex (\<lambda>n. net_primitives db n = []) ns \<Longrightarrow> collect_net_names db ns acc = Inl IndexError"
  by (induction ns arbitrary: acc) (auto split: list.splits)

subsection \<open>Export: the sentinel layer is absent\<close>

text \<open>
  C2. When the layer \<^verbatim>\<open>pyedb_cutout\<close> is not in the stackup,
  \<^verbatim>\<open>CfgCutout.get_data_from_db\<close> raises nothing and returns nothing, leaving the
  handler as it was, and \<^verbatim>\<open>CfgOperations.get_data_from_db\<close> returns the empty
  mapping.
\<close>

theorem get_data_from_db_sentinel_absent:
  assumes "sentinel \<notin> set (all_layers db)"
  shows "CfgCutout_get_data_from_db c db = Inr (None, c)
       \<and> CfgOperations_get_data_from_db ops db =
           Inr ([], ops\<lparr>op_cutout := Some (CfgCutout_init Map.empty)\<rparr>)"
  using assms
  by (simp add: CfgCutout_get_data_from_db_def CfgOperations_get_data_from_db_def)

theorem get_data_from_db_sentinel_absent_witness:
  "sentinel \<notin> set (all_layers db_plain)
   \<and> CfgCutout_get_data_from_db (CfgCutout_init Map.empty) db_plain
       = Inr (None, CfgCutout_init Map.empty)
   \<and> CfgOperations_get_data_from_db \<lparr>op_cutout = None\<rparr> db_plain
       = Inr ([], \<lparr>op_cutout = Some (CfgCutout_init Map.empty)\<rparr>)"
proof -
  have h: "sentinel \<notin> set (all_layers db_plain)"
    by (simp add: sentinel_def db_plain_def)
  show ?thesis
    using h get_data_from_db_sentinel_absent [OF h, of "CfgCutout_init Map.empty" "\<lparr>op_cutout = None\<rparr>"]
    by simp
qed

subsection \<open>Export: the sentinel layer holds a primitive\<close>

text \<open>
  C1, as the code has it. When the layer \<^verbatim>\<open>pyedb_cutout\<close> is in the stackup and
  holds at least one primitive, and every net has at least one primitive, the export
  succeeds: \<^verbatim>\<open>signal_list\<close> holds, in dictionary order, exactly the nets whose first
  primitive is not on the sentinel layer, \<^verbatim>\<open>reference_list\<close> is the empty list and
  \<^verbatim>\<open>custom_extent\<close> holds the points of the first primitive found on the sentinel
  layer.
\<close>

theorem get_data_from_db_first_primitive:
  assumes "sentinel \<in> set (all_layers db)"
      and "find_primitive db sentinel = poly # rest"
      and "every_net_has_primitive db"
  shows "CfgCutout_get_data_from_db c db =
           Inr (Some [(''signal_list'',
                         PList (map PStr (filter (first_primitive_off_sentinel db) (nets db)))),
                      (''reference_list'', PList []),
                      (''custom_extent'', points poly)],
                c\<lparr>custom_extent := points poly,
                  reference_list := PList [],
                  signal_list :=
                    PList (map PStr (filter (first_primitive_off_sentinel db) (nets db)))\<rparr>)"
proof -
  have "collect_net_names db (nets db) [] =
          Inr (filter (first_primitive_off_sentinel db) (nets db))"
    using assms(3) collect_net_names_ok [of db "nets db" "[]"]
    by (simp add: every_net_has_primitive_def)
  then show ?thesis
    using assms(1,2)
    by (simp add: CfgCutout_get_data_from_db_def export_properties_def)
qed

theorem get_data_from_db_first_primitive_witness:
  "sentinel \<in> set (all_layers db_after_cutout)
   \<and> find_primitive db_after_cutout sentinel
       = [\<lparr>layer_name = ''pyedb_cutout'', net_name = ''pyedb_cutout'', points = square\<rparr>]
   \<and> every_net_has_primitive db_after_cutout
   \<and> CfgCutout_get_data_from_db (CfgCutout_init Map.empty) db_after_cutout =
       Inr (Some [(''signal_list'', PList [PStr ''SIG'', PStr ''GND'']),
                  (''reference_list'', PList []),
                  (''custom_extent'', square)],
             (CfgCutout_init Map.empty)
               \<lparr>custom_extent := square,
                reference_list := PList [],
                signal_list := PList [PStr ''SIG'', PStr ''GND'']\<rparr>)"
proof -
  have h1: "sentinel \<in> set (all_layers db_after_cutout)"
    by (simp add: sentinel_def db_after_cutout_def)
  have h2: "find_primitive db_after_cutout sentinel
       = [\<lparr>layer_name = ''pyedb_cutout'', net_name = ''pyedb_cutout'', points = square\<rparr>]"
    by (simp add: find_primitive_def sentinel_def db_after_cutout_def)
  have h3: "every_net_has_primitive db_after_cutout"
    by (simp add: every_net_has_primitive_def net_primitives_def db_after_cutout_def)
  have f: "filter (first_primitive_off_sentinel db_after_cutout) (nets db_after_cutout)
             = [''SIG'', ''GND'']"
    by (simp add: first_primitive_off_sentinel_def net_primitives_def sentinel_def
                  db_after_cutout_def)
  show ?thesis
    using h1 h2 h3 get_data_from_db_first_primitive [OF h1 h2 h3, of "CfgCutout_init Map.empty"]
    by (simp add: f)
qed

text \<open>
  C1, as the spec words it, fails: in \<open>db_first_on_sentinel\<close> the sentinel layer exists
  and holds primitives, the net \<open>SIG\<close> has a primitive on \<open>1_Top\<close> and so is not
  confined to the sentinel layer, yet the export leaves it out because its first primitive
  is on the sentinel layer.
\<close>

theorem signal_list_first_primitive_counterexample:
  "sentinel \<in> set (all_layers db_first_on_sentinel)
   \<and> find_primitive db_first_on_sentinel sentinel \<noteq> []
   \<and> \<not> exports_not_confined_nets db_first_on_sentinel"
  by (simp add: exports_not_confined_nets_def CfgCutout_get_data_from_db_def
        find_primitive_def net_primitives_def not_confined_def pydict_get_def
        export_properties_def sentinel_def db_first_on_sentinel_def)

text \<open>
  A net without primitives makes the export raise: the first primitive is read before the
  length of the list is tested.
\<close>

lemma get_data_from_db_IndexError:
  "CfgCutout_get_data_from_db c db_net_without_primitives = Inl IndexError"
  by (simp add: CfgCutout_get_data_from_db_def find_primitive_def net_primitives_def
        sentinel_def db_net_without_primitives_def)

subsection \<open>Export: the sentinel layer is empty\<close>

text \<open>
  C10. When the layer \<^verbatim>\<open>pyedb_cutout\<close> is in the stackup but no primitive is found
  on it, \<^verbatim>\<open>CfgCutout.get_data_from_db\<close> still returns the export dictionary of the
  untouched handler, so \<^verbatim>\<open>CfgOperations.get_data_from_db\<close> returns a mapping with
  the key \<^verbatim>\<open>cutout\<close> whose three entries are all \<open>None\<close>, not the empty mapping.
\<close>

theorem get_data_from_db_sentinel_without_primitive:
  assumes "sentinel \<in> set (all_layers db)"
      and "find_primitive db sentinel = []"
  shows "CfgCutout_get_data_from_db c db = Inr (Some (export_properties c), c)
       \<and> CfgOperations_get_data_from_db ops db =
           Inr ([(''cutout'', [(''signal_list'', PNone), (''reference_list'', PNone),
                               (''custom_extent'', PNone)])],
                ops\<lparr>op_cutout := Some (CfgCutout_init Map.empty)\<rparr>)"
proof -
  have a: "CfgCutout_get_data_from_db c' db = Inr (Some (export_properties c'), c')" for c'
    using assms by (simp add: CfgCutout_get_data_from_db_def)
  show ?thesis
    by (simp add: a CfgOperations_get_data_from_db_def CfgCutout_init_empty)
qed

theorem get_data_from_db_sentinel_without_primitive_witness:
  "sentinel \<in> set (all_layers db_empty_sentinel)
   \<and> find_primitive db_empty_sentinel sentinel = []
   \<and> CfgOperations_get_data_from_db \<lparr>op_cutout = None\<rparr> db_empty_sentinel =
       Inr ([(''cutout'', [(''signal_list'', PNone), (''reference_list'', PNone),
                           (''custom_extent'', PNone)])],
            \<lparr>op_cutout = Some (CfgCutout_init Map.empty)\<rparr>)"
proof -
  have h1: "sentinel \<in> set (all_layers db_empty_sentinel)"
    by (simp add: sentinel_def db_empty_sentinel_def)
  have h2: "find_primitive db_empty_sentinel sentinel = []"
    by (simp add: find_primitive_def sentinel_def db_empty_sentinel_def)
  show ?thesis
    using h1 h2
      get_data_from_db_sentinel_without_primitive [OF h1 h2,
        of "CfgCutout_init Map.empty" "\<lparr>op_cutout = None\<rparr>"]
    by simp
qed

subsection \<open>Export: independence of the loaded document\<close>

text \<open>
  C7. \<^verbatim>\<open>CfgOperations.get_data_from_db\<close> does not depend on the document the object
  was built from: whatever was loaded, with a cutout section or without, the result on a
  given database is the same, both the exported mapping (or the error) and the handler left
  behind.
\<close>

theorem get_data_from_db_ignores_loaded_cutout:
  "CfgOperations_get_data_from_db (CfgOperations_init data1) db =
   CfgOperations_get_data_from_db (CfgOperations_init data2) db"
  by (simp add: CfgOperations_get_data_from_db_def CfgOperations_init_def
           split: sum.splits option.splits prod.splits)

theorem get_data_from_db_ignores_loaded_cutout_witness:
  "CfgOperations_get_data_from_db (CfgOperations_init [''cutout'' \<mapsto> cutout_kwargs]) db_after_cutout
     = CfgOperations_get_data_from_db (CfgOperations_init Map.empty) db_after_cutout"
  using get_data_from_db_ignores_loaded_cutout
          [of "[''cutout'' \<mapsto> cutout_kwargs]" db_after_cutout Map.empty]
  by simp

subsection \<open>Apply: no cutout section\<close>

text \<open>
  C9. When the operations mapping has no key \<^verbatim>\<open>cutout\<close>, the constructor sets
  \<^verbatim>\<open>op_cutout\<close> to \<open>None\<close> and \<^verbatim>\<open>apply\<close> returns without error and with
  the database unchanged, whatever the external cutout would have done: it is not called.
\<close>

theorem apply_without_cutout:
  assumes "data ''cutout'' = None"
  shows "op_cutout (CfgOperations_init data) = None
       \<and> CfgOperations_apply cutout (CfgOperations_init data) db = Inr db"
  using assms by (simp add: CfgOperations_init_def CfgOperations_apply_def)

theorem apply_without_cutout_witness:
  "[''nets'' \<mapsto> Map.empty] ''cutout'' = (None :: kwargs option)
   \<and> op_cutout (CfgOperations_init [''nets'' \<mapsto> Map.empty]) = None
   \<and> CfgOperations_apply failing_engine (CfgOperations_init [''nets'' \<mapsto> Map.empty]) db_plain
       = Inr db_plain"
proof -
  have h: "[''nets'' \<mapsto> Map.empty] ''cutout'' = (None :: kwargs option)"
    by simp
  show ?thesis
    using h apply_without_cutout [of "[''nets'' \<mapsto> Map.empty]" failing_engine db_plain]
    by simp
qed

subsection \<open>Apply: a second time\<close>

text \<open>
  Whatever the engine does, a successful apply leaves the sentinel layer in the stackup,
  and a later apply returns exactly what the engine returns as long as that layer is
  still there: the guard looks at the layer, not at the polygon.
\<close>

lemma apply_leaves_sentinel:
  assumes "op_cutout ops = Some c"
      and "CfgOperations_apply cutout ops db = Inr db1"
  shows "sentinel \<in> set (all_layers db1)"
  using assms
  by (auto simp: CfgOperations_apply_def create_polygon_def add_document_layer_def
           split: sum.splits if_splits)



lemma sentinel_listed: "sentinel \<in> set (listed_nets kw)"
  by (simp add: listed_nets_def)




text \<open>
  The net set after one apply on a board without the sentinel layer: the listed nets the
  board had, and the sentinel net.
\<close>

lemma apply_net_set:
  assumes "op_cutout ops = Some c"
      and "sentinel \<notin> set (all_layers db)"
      and "CfgOperations_apply (keep_listed_nets boundary) ops db = Inr db1"
  shows "set (nets db1) = (set (nets db) \<inter> set (listed_nets (get_attributes c))) \<union> {sentinel}"
  using assms sentinel_listed [of "get_attributes c"]
  by (auto simp: CfgOperations_apply_def keep_listed_nets_def discard_unlisted_def
        create_polygon_def add_document_layer_def split: if_splits)






subsection \<open>Renaming a layer\<close>

lemma cascade_known:
  assumes "k < length ls" and "start_layer i \<in> set ls \<and> stop_layer i \<in> set ls"
  shows "start_layer (cascade (ls ! k) new i) \<in> set (ls[k := new])
       \<and> stop_layer (cascade (ls ! k) new i) \<in> set (ls[k := new])"
proof -
  have new_in: "new \<in> set (ls[k := new])"
    using assms(1) by (simp add: set_update_memI)
  have keep: "x \<in> set (ls[k := new])" if "x \<in> set ls" "x \<noteq> ls ! k" for x
  proof -
    from that(1) obtain j where j: "j < length ls" "ls ! j = x"
      by (auto simp: in_set_conv_nth)
    with that(2) have "j \<noteq> k" by auto
    with j have "(ls[k := new]) ! j = x" by simp
    with j(1) show ?thesis by (metis length_list_update nth_mem)
  qed
  show ?thesis
    using assms(2) new_in keep by (auto simp: cascade_def)
qed

text \<open>
  C4. Renaming the layer at a position of the stackup succeeds as one step; every padstack
  instance whose start or stop layer carried the old name carries the new name afterwards;
  and if every instance referenced layers of the stackup before, every instance references
  layers of the new stackup afterwards.
\<close>

theorem rename_layer_cascades:
  assumes "k < length (layers s)"
      and "references_known_layers s"
  shows "rename_layer k new s =
           Some (s\<lparr>layers := (layers s)[k := new],
                   instances := map (cascade (layers s ! k) new) (instances s)\<rparr>)
       \<and> follows_rename (layers s ! k) new (instances s)
           (map (cascade (layers s ! k) new) (instances s))
       \<and> references_known_layers
           (s\<lparr>layers := (layers s)[k := new],
              instances := map (cascade (layers s ! k) new) (instances s)\<rparr>)"
proof -
  have a: "follows_rename (layers s ! k) new (instances s)
             (map (cascade (layers s ! k) new) (instances s))"
    by (simp add: follows_rename_def list_all2_conv_all_nth cascade_def)
  have b: "references_known_layers
           (s\<lparr>layers := (layers s)[k := new],
              instances := map (cascade (layers s ! k) new) (instances s)\<rparr>)"
    using assms cascade_known [of k "layers s" _ new]
    by (simp add: references_known_layers_def list_all_iff)
  show ?thesis
    using assms(1) a b by (simp add: rename_layer_def)
qed

theorem rename_layer_cascades_witness:
  "(1::nat) < length (layers stackup_example)
   \<and> references_known_layers stackup_example
   \<and> rename_layer 1 ''Inner1'' stackup_example =
       Some \<lparr>layers = [''1_Top'', ''Inner1'', ''16_Bottom''],
             instances = [\<lparr>start_layer = ''1_Top'', stop_layer = ''Inner1''\<rparr>,
                          \<lparr>start_layer = ''Inner1'', stop_layer = ''16_Bottom''\<rparr>,
                          \<lparr>start_layer = ''1_Top'', stop_layer = ''16_Bottom''\<rparr>]\<rparr>
   \<and> follows_rename ''Inner1(GND1)'' ''Inner1''
       [\<lparr>start_layer = ''1_Top'', stop_layer = ''Inner1(GND1)''\<rparr>,
        \<lparr>start_layer = ''Inner1(GND1)'', stop_layer = ''16_Bottom''\<rparr>,
        \<lparr>start_layer = ''1_Top'', stop_layer = ''16_Bottom''\<rparr>]
       [\<lparr>start_layer = ''1_Top'', stop_layer = ''Inner1''\<rparr>,
        \<lparr>start_layer = ''Inner1'', stop_layer = ''16_Bottom''\<rparr>,
        \<lparr>start_layer = ''1_Top'', stop_layer = ''16_Bottom''\<rparr>]
   \<and> references_known_layers
       \<lparr>layers = [''1_Top'', ''Inner1'', ''16_Bottom''],
        instances = [\<lparr>start_layer = ''1_Top'', stop_layer = ''Inner1''\<rparr>,
                     \<lparr>start_layer = ''Inner1'', stop_layer = ''16_Bottom''\<rparr>,
                     \<lparr>start_layer = ''1_Top'', stop_layer = ''16_Bottom''\<rparr>]\<rparr>"
proof -
  have h1: "(1::nat) < length (layers stackup_example)"
    by (simp add: stackup_example_def)
  have h2: "references_known_layers stackup_example"
    by (simp add: references_known_layers_def stackup_example_def)
  have e: "stackup_example\<lparr>layers := (layers stackup_example)[1 := ''Inner1''],
              instances := map (cascade (layers stackup_example ! 1) ''Inner1'')
                             (instances stackup_example)\<rparr>
           = \<lparr>layers = [''1_Top'', ''Inner1'', ''16_Bottom''],
             instances = [\<lparr>start_layer = ''1_Top'', stop_layer = ''Inner1''\<rparr>,
                          \<lparr>start_layer = ''Inner1'', stop_layer = ''16_Bottom''\<rparr>,
                          \<lparr>start_layer = ''1_Top'', stop_layer = ''16_Bottom''\<rparr>]\<rparr>"
    by (simp add: stackup_example_def cascade_def)
  have m: "map (cascade ''Inner1(GND1)'' ''Inner1'')
             [\<lparr>start_layer = ''1_Top'', stop_layer = ''Inner1(GND1)''\<rparr>,
              \<lparr>start_layer = ''Inner1(GND1)'', stop_layer = ''16_Bottom''\<rparr>,
              \<lparr>start_layer = ''1_Top'', stop_layer = ''16_Bottom''\<rparr>]
           = [\<lparr>start_layer = ''1_Top'', stop_layer = ''Inner1''\<rparr>,
              \<lparr>start_layer = ''Inner1'', stop_layer = ''16_Bottom''\<rparr>,
              \<lparr>start_layer = ''1_Top'', stop_layer = ''16_Bottom''\<rparr>]"
    by (simp add: cascade_def)
  have o: "layers stackup_example ! 1 = ''Inner1(GND1)''"
    by (simp add: stackup_example_def)
  have i: "instances stackup_example
           = [\<lparr>start_layer = ''1_Top'', stop_layer = ''Inner1(GND1)''\<rparr>,
              \<lparr>start_layer = ''Inner1(GND1)'', stop_layer = ''16_Bottom''\<rparr>,
              \<lparr>start_layer = ''1_Top'', stop_layer = ''16_Bottom''\<rparr>]"
    by (simp add: stackup_example_def)
  note r = rename_layer_cascades [OF h1 h2, of "''Inner1''"]
  note r1 = r [THEN conjunct1, unfolded e]
  note r2 = r [THEN conjunct2, THEN conjunct1, unfolded o i m]
  note r3 = r [THEN conjunct2, THEN conjunct2, unfolded e]
  from h1 h2 r1 r2 r3 show ?thesis
    by blast
qed

subsection \<open>Sources on a pair of nets\<close>

lemma pg_names_differ: "pg_ref_name e \<noteq> pg_name e"
  by (simp add: pg_ref_name_def)

lemma pins_on_net_create_pin_group:
  "pins_on_net (create_pin_group pg pins db) rd net = pins_on_net db rd net"
  by (simp add: pins_on_net_def create_pin_group_def)

lemma create_pin_group_names:
  "set (pin_group_names (create_pin_group pg pins db)) = insert pg (set (pin_group_names db))"
  by (auto simp: create_pin_group_def pin_group_names_def)

text \<open>
  A net without a pin on the component is a lookup error; nothing is stored.
\<close>

lemma apply_source_net_not_found:
  assumes "\<not> distributed e"
      and "positive_terminal e = Net p"
      and "pins_on_net db (reference_designator e) p = []"
  shows "apply_source search expand e db = Inl (Net_Not_Found (reference_designator e) p)"
  using assms by (simp add: apply_source_def)

lemma apply_source_reference_net_not_found:
  assumes "\<not> distributed e"
      and "positive_terminal e = Net p"
      and "negative_terminal e = Net n"
      and "pins_on_net db (reference_designator e) p \<noteq> []"
      and "pins_on_net db (reference_designator e) n = []"
  shows "apply_source search expand e db = Inl (Net_Not_Found (reference_designator e) n)"
  using assms
  by (simp add: apply_source_def pins_on_net_create_pin_group split: list.splits)

lemma apply_source_net_net_value:
  assumes "\<not> distributed e"
      and "positive_terminal e = Net p"
      and "negative_terminal e = Net n"
      and "pins_on_net db (reference_designator e) p \<noteq> []"
      and "pins_on_net db (reference_designator e) n \<noteq> []"
  shows "apply_source search expand e db =
           Inr (store_source e (Pin_Group_Terminal (pg_name e)) (Pin_Group_Terminal (pg_ref_name e))
                  (create_pin_group (pg_ref_name e) (pins_on_net db (reference_designator e) n)
                     (create_pin_group (pg_name e) (pins_on_net db (reference_designator e) p) db)))"
  using assms
  by (simp add: apply_source_def pins_on_net_create_pin_group split: list.splits)

lemma export_stored_source:
  assumes "\<not> distributed e"
  shows "filter (\<lambda>x. entry_name x = entry_name e) (export_sources (store_source e pos neg db))
         = [e\<lparr>positive_terminal := export_terminal pos, negative_terminal := export_terminal neg\<rparr>]"
proof -
  have none: "filter (\<lambda>x. entry_name x = entry_name e)
                (map export_source (filter (\<lambda>s. source_name s \<noteq> entry_name e) ss)) = []" for ss
    by (induction ss) (simp_all add: export_source_def)
  have same: "export_source
               \<lparr>source_name = entry_name e, source_component = reference_designator e,
                source_type = entry_type e, source_magnitude = magnitude e,
                source_positive = pos, source_negative = neg\<rparr>
              = e\<lparr>positive_terminal := export_terminal pos,
                  negative_terminal := export_terminal neg\<rparr>"
    using assms by (cases e) (simp add: export_source_def)
  show ?thesis
    by (simp add: export_sources_def store_source_def none same [symmetric])
       (simp add: export_source_def)
qed

text \<open>
  C6. Applying an entry that is not distributed and addresses both terminals by net, each
  net having a pin on the reference designator, succeeds whatever the search and the
  expansion parameters are; it leaves the components alone, the pin groups
  \<^verbatim>\<open>pg_<name>_<rd>\<close> and \<^verbatim>\<open>pg_<name>_<rd>_ref\<close> exist afterwards (newly created
  with the pins of the two nets when the names were free, untouched when both were
  there), the source is stored once, and the export holds exactly one entry of that name:
  the applied entry, same reference designator, type and magnitude, with its terminals
  now the two pin groups.
\<close>

theorem apply_source_net_net:
  assumes "\<not> distributed e"
      and "positive_terminal e = Net p"
      and "negative_terminal e = Net n"
      and "pins_on_net db (reference_designator e) p \<noteq> []"
      and "pins_on_net db (reference_designator e) n \<noteq> []"
  shows "case apply_source search expand e db of
           Inl err \<Rightarrow> False
         | Inr db' \<Rightarrow> net_net_source_applied e p n db db'"
proof -
  define db1 where
    "db1 = create_pin_group (pg_name e) (pins_on_net db (reference_designator e) p) db"
  define db2 where
    "db2 = create_pin_group (pg_ref_name e) (pins_on_net db (reference_designator e) n) db1"
  define db' where
    "db' = store_source e (Pin_Group_Terminal (pg_name e)) (Pin_Group_Terminal (pg_ref_name e)) db2"
  have v: "apply_source search expand e db = Inr db'"
    using assms by (simp add: apply_source_net_net_value db'_def db2_def db1_def)
  have names2: "set (pin_group_names db2)
                  = insert (pg_ref_name e) (insert (pg_name e) (set (pin_group_names db)))"
    by (simp add: db2_def db1_def create_pin_group_names)
  have g': "pin_groups db' = pin_groups db2" "component_pins db' = component_pins db2"
    by (simp_all add: db'_def store_source_def)
  have c: "component_pins db' = component_pins db"
    by (simp add: g' db2_def db1_def create_pin_group_def)
  have n': "pin_group_names db' = pin_group_names db2"
    by (simp add: pin_group_names_def g')
  have fresh: "pin_groups db' =
                 pin_groups db @ [(pg_name e, pins_on_net db (reference_designator e) p),
                                  (pg_ref_name e, pins_on_net db (reference_designator e) n)]"
    if "pg_name e \<notin> set (pin_group_names db)" "pg_ref_name e \<notin> set (pin_group_names db)"
    using that pg_names_differ [of e]
    by (simp add: g' db2_def db1_def create_pin_group_def pin_group_names_def)
  have taken: "pin_groups db' = pin_groups db"
    if "pg_name e \<in> set (pin_group_names db)" "pg_ref_name e \<in> set (pin_group_names db)"
    using that by (simp add: g' db2_def db1_def create_pin_group_def)
  have s: "sources db' =
          filter (\<lambda>s. source_name s \<noteq> entry_name e) (sources db)
          @ [\<lparr>source_name = entry_name e,
              source_component = reference_designator e,
              source_type = entry_type e,
              source_magnitude = magnitude e,
              source_positive = Pin_Group_Terminal (pg_name e),
              source_negative = Pin_Group_Terminal (pg_ref_name e)\<rparr>]"
    by (simp add: db'_def store_source_def db2_def db1_def create_pin_group_def)
  have x: "filter (\<lambda>x. entry_name x = entry_name e) (export_sources db') =
          [e\<lparr>positive_terminal := Pin_Group (pg_name e),
             negative_terminal := Pin_Group (pg_ref_name e)\<rparr>]"
    using export_stored_source [OF assms(1), of
            "Pin_Group_Terminal (pg_name e)" "Pin_Group_Terminal (pg_ref_name e)" db2]
    by (simp add: db'_def)
  have "net_net_source_applied e p n db db'"
    unfolding net_net_source_applied_def
    using c names2 fresh taken s x by (simp add: n')
  with v show ?thesis by simp
qed

lemma vsource_names:
  "pg_name vsource = ''pg_VSOURCE_U2_1V0_GND_U2''"
  "pg_ref_name vsource = ''pg_VSOURCE_U2_1V0_GND_U2_ref''"
  by (simp_all add: pg_name_def pg_ref_name_def vsource_def)

lemma vsource_applied: "apply_source no_search no_expansion vsource board_pins = Inr board_pins_applied"
  by (simp add: apply_source_def vsource_def pg_name_def pg_ref_name_def store_source_def
        create_pin_group_def pin_group_names_def pins_on_net_def board_pins_def
        board_pins_applied_def)

lemma vsource_applied_again:
  "apply_source no_search no_expansion vsource board_pins_applied = Inr board_pins_applied"
  by (simp add: apply_source_def vsource_def pg_name_def pg_ref_name_def store_source_def
        create_pin_group_def pin_group_names_def pins_on_net_def board_pins_applied_def)

theorem apply_source_net_net_witness:
  "\<not> distributed vsource
   \<and> positive_terminal vsource = Net ''1V0''
   \<and> negative_terminal vsource = Net ''GND''
   \<and> pins_on_net board_pins (reference_designator vsource) ''1V0'' \<noteq> []
   \<and> pins_on_net board_pins (reference_designator vsource) ''GND'' \<noteq> []
   \<and> pg_name vsource \<notin> set (pin_group_names board_pins)
   \<and> pg_ref_name vsource \<notin> set (pin_group_names board_pins)
   \<and> apply_source no_search no_expansion vsource board_pins = Inr board_pins_applied
   \<and> net_net_source_applied vsource ''1V0'' ''GND'' board_pins board_pins_applied
   \<and> pins_on_net board_pins_applied (reference_designator vsource) ''1V0'' \<noteq> []
   \<and> pins_on_net board_pins_applied (reference_designator vsource) ''GND'' \<noteq> []
   \<and> pg_name vsource \<in> set (pin_group_names board_pins_applied)
   \<and> pg_ref_name vsource \<in> set (pin_group_names board_pins_applied)
   \<and> apply_source no_search no_expansion vsource board_pins_applied = Inr board_pins_applied
   \<and> net_net_source_applied vsource ''1V0'' ''GND'' board_pins_applied board_pins_applied"
proof -
  have h1: "\<not> distributed vsource"
    by (simp add: vsource_def)
  have h2: "positive_terminal vsource = Net ''1V0''"
    by (simp add: vsource_def)
  have h3: "negative_terminal vsource = Net ''GND''"
    by (simp add: vsource_def)
  have h4: "pins_on_net board_pins (reference_designator vsource) ''1V0'' \<noteq> []"
    by (simp add: pins_on_net_def board_pins_def vsource_def)
  have h5: "pins_on_net board_pins (reference_designator vsource) ''GND'' \<noteq> []"
    by (simp add: pins_on_net_def board_pins_def vsource_def)
  have f: "pg_name vsource \<notin> set (pin_group_names board_pins)"
          "pg_ref_name vsource \<notin> set (pin_group_names board_pins)"
    by (simp_all add: vsource_names pin_group_names_def board_pins_def)
  have k4: "pins_on_net board_pins_applied (reference_designator vsource) ''1V0'' \<noteq> []"
    by (simp add: pins_on_net_def board_pins_applied_def vsource_def)
  have k5: "pins_on_net board_pins_applied (reference_designator vsource) ''GND'' \<noteq> []"
    by (simp add: pins_on_net_def board_pins_applied_def vsource_def)
  have t: "pg_name vsource \<in> set (pin_group_names board_pins_applied)"
          "pg_ref_name vsource \<in> set (pin_group_names board_pins_applied)"
    by (simp_all add: vsource_names pin_group_names_def board_pins_applied_def)
  note r = apply_source_net_net [OF h1 h2 h3 h4 h5, of no_search no_expansion,
             unfolded vsource_applied]
  note r' = apply_source_net_net [OF h1 h2 h3 k4 k5, of no_search no_expansion,
             unfolded vsource_applied_again]
  from h1 h2 h3 h4 h5 f vsource_applied r k4 k5 t vsource_applied_again r' show ?thesis
    by simp
qed

end
